theory Spec2Isabelle
  imports Complex_Main "HOL-Library.AList"
begin

section \<open>VideoAvatarRenderer: data model\<close>

text \<open>
  The renderer of \<^verbatim>\<open>play/src/front/Phaser/Entity/VideoAvatarRenderer.ts\<close> is embedded
  as a record of its fields and pure functions on that record, one per method.

  JavaScript numbers (timestamps, rectangle coordinates) are modelled as \<^typ>\<open>real\<close>:
  rounding of IEEE doubles is not part of the model.  Where the source divides by a
  quantity that can be zero, the IEEE result is written out by hand, since HOL's
  \<open>x / 0 = 0\<close> is not what JavaScript computes.
\<close>

text \<open>A \<^verbatim>\<open>MediaStream\<close> is inspected only through \<^verbatim>\<open>getVideoTracks().length\<close>.\<close>

datatype stream = MediaStream (stream_id: nat) (videoTracks: nat)

text \<open>An \<^verbatim>\<open>HTMLImageElement\<close> after a successful load: its source and decoded size.\<close>

datatype image = Image (img_src: string) (img_width: nat) (img_height: nat)

text \<open>A rectangle \<open>(x, y, w, h)\<close>.\<close>

type_synonym rect = "real \<times> real \<times> real \<times> real"

text \<open>
  The calls issued on a 2D context.  \<open>FillArc\<close> and \<open>FillEllipse\<close> stand for
  \<^verbatim>\<open>beginPath(); arc(...)/ellipse(...); fill()\<close> over the full angle \<open>0 .. 2\<pi>\<close> with the
  given fill style.  \<open>DrawVideo\<close> is the nine-argument \<^verbatim>\<open>drawImage\<close> (source rectangle,
  destination rectangle); \<open>DrawImage\<close> is the five-argument one, its rectangle being
  \<open>None\<close> when the arguments are \<^verbatim>\<open>NaN\<close> (the canvas then ignores the call).
\<close>

datatype draw_op =
    ClearRect rect
  | FillRect string rect
  | FillArc string real real real
  | FillEllipse string real real real real
  | DrawVideo rect rect
  | DrawImage image "rect option"

text \<open>
  The fields of the class.  \<open>srcObject\<close> is \<^verbatim>\<open>videoElement.srcObject\<close>; \<open>canvas\<close> is the
  sequence of calls issued on \<^verbatim>\<open>this.ctx\<close> so far (oldest first); \<open>texture\<close> is the
  content of the Phaser canvas texture (the canvas calls it was last refreshed from),
  \<open>None\<close> once the texture has been destroyed.
\<close>

record renderer =
  textureKey :: string
  lastFrameTime :: real
  isActive :: bool
  currentMaskImage :: "image option"
  maskLoading :: bool
  destroyed :: bool
  srcObject :: "stream option"
  canvas :: "draw_op list"
  texture :: "draw_op list option"

definition frameInterval :: real where
  "frameInterval = 66"

definition SPRITE_WIDTH :: real where
  "SPRITE_WIDTH = 32"

definition SPRITE_HEIGHT :: real where
  "SPRITE_HEIGHT = 32"

datatype error = NoContext2d | NoCanvasTexture

text \<open>
  What the hosting environment answers to the two allocations of the constructor:
  \<^verbatim>\<open>canvas.getContext("2d")\<close> and \<^verbatim>\<open>scene.textures.createCanvas(...)\<close>.
\<close>

record env =
  getContext_ok :: bool
  createCanvas_ok :: bool

section \<open>VideoAvatarRenderer: methods\<close>

definition refreshTexture :: "renderer \<Rightarrow> renderer" where
  "refreshTexture r =
     (if destroyed r then r
      else r\<lparr>texture := map_option (\<lambda>_. canvas r) (texture r)\<rparr>)"

definition placeholder_ops :: "draw_op list" where
  "placeholder_ops =
     [FillRect ''#444444'' (0, 0, SPRITE_WIDTH, SPRITE_HEIGHT),
      FillArc ''#666666'' (SPRITE_WIDTH / 2) (SPRITE_HEIGHT * 0.35) (SPRITE_HEIGHT * 0.2),
      FillEllipse ''#666666'' (SPRITE_WIDTH / 2) (SPRITE_HEIGHT * 0.8)
        (SPRITE_WIDTH * 0.3) (SPRITE_HEIGHT * 0.3)]"

definition drawPlaceholder :: "renderer \<Rightarrow> renderer" where
  "drawPlaceholder r = refreshTexture (r\<lparr>canvas := canvas r @ placeholder_ops\<rparr>)"

text \<open>
  The source rectangle of \<^verbatim>\<open>drawVideoFrame\<close>, from \<^verbatim>\<open>video.videoWidth\<close> and
  \<^verbatim>\<open>video.videoHeight\<close>.  \<^verbatim>\<open>drawVideoFrame\<close> is private and only called by \<^verbatim>\<open>update\<close>
  after both have been checked to be non-zero.
\<close>

definition videoSourceRect :: "nat \<Rightarrow> nat \<Rightarrow> rect" where
  "videoSourceRect videoWidth videoHeight =
     (let videoAspect = real videoWidth / real videoHeight;
          targetAspect = SPRITE_WIDTH / SPRITE_HEIGHT
      in if videoAspect > targetAspect
         then (let sw = real videoHeight * targetAspect
               in ((real videoWidth - sw) / 2, 0, sw, real videoHeight))
         else (let sh = real videoWidth / targetAspect
               in (0, (real videoHeight - sh) / 2, real videoWidth, sh)))"

definition video_ops :: "nat \<Rightarrow> nat \<Rightarrow> draw_op list" where
  "video_ops videoWidth videoHeight =
     [ClearRect (0, 0, SPRITE_WIDTH, SPRITE_HEIGHT),
      DrawVideo (videoSourceRect videoWidth videoHeight) (0, 0, SPRITE_WIDTH, SPRITE_HEIGHT)]"

definition drawVideoFrame :: "nat \<Rightarrow> nat \<Rightarrow> renderer \<Rightarrow> renderer" where
  "drawVideoFrame videoWidth videoHeight r =
     refreshTexture (r\<lparr>canvas := canvas r @ video_ops videoWidth videoHeight\<rparr>)"

text \<open>
  The destination rectangle of \<^verbatim>\<open>drawMaskToCanvas\<close>, from \<^verbatim>\<open>img.width\<close> and
  \<^verbatim>\<open>img.height\<close>.  With \<^verbatim>\<open>img.height = 0\<close> JavaScript computes an aspect of
  \<^verbatim>\<open>NaN\<close> (width 0: the comparison fails and both \<^verbatim>\<open>dw\<close> and \<^verbatim>\<open>dx\<close> are \<^verbatim>\<open>NaN\<close>) or of
  \<^verbatim>\<open>Infinity\<close> (the image counts as wider, and \<^verbatim>\<open>dh = width / Infinity = 0\<close>).
\<close>

definition maskDestRect :: "nat \<Rightarrow> nat \<Rightarrow> rect option" where
  "maskDestRect width height =
     (if height = 0 then
        (if width = 0 then None
         else Some (0, (SPRITE_HEIGHT - 0) / 2, SPRITE_WIDTH, 0))
      else
        (let imgAspect = real width / real height;
             targetAspect = SPRITE_WIDTH / SPRITE_HEIGHT
         in if imgAspect > targetAspect
            then (let dh = SPRITE_WIDTH / imgAspect
                  in Some (0, (SPRITE_HEIGHT - dh) / 2, SPRITE_WIDTH, dh))
            else (let dw = SPRITE_HEIGHT * imgAspect
                  in Some ((SPRITE_WIDTH - dw) / 2, 0, dw, SPRITE_HEIGHT))))"

definition mask_ops :: "image \<Rightarrow> draw_op list" where
  "mask_ops img =
     [FillRect ''#333333'' (0, 0, SPRITE_WIDTH, SPRITE_HEIGHT),
      DrawImage img (maskDestRect (img_width img) (img_height img))]"

definition drawMaskToCanvas :: "renderer \<Rightarrow> renderer" where
  "drawMaskToCanvas r =
     (case currentMaskImage r of
        None \<Rightarrow> drawPlaceholder r
      | Some img \<Rightarrow> refreshTexture (r\<lparr>canvas := canvas r @ mask_ops img\<rparr>))"

text \<open>The constructor: both allocations can fail, and each failure is thrown.\<close>

definition new_VideoAvatarRenderer :: "env \<Rightarrow> string \<Rightarrow> error + renderer" where
  "new_VideoAvatarRenderer e key =
     (if \<not> getContext_ok e then Inl NoContext2d
      else if \<not> createCanvas_ok e then Inl NoCanvasTexture
      else Inr (drawPlaceholder
        \<lparr>textureKey = key, lastFrameTime = 0, isActive = False,
         currentMaskImage = None, maskLoading = False, destroyed = False,
         srcObject = None, canvas = [], texture = Some []\<rparr>))"

text \<open>
  \<^verbatim>\<open>setStream\<close>.  The playback started by \<^verbatim>\<open>videoElement.play()\<close> touches no field; its
  rejection is the callback \<open>play_rejected\<close> below.
\<close>

definition setStream :: "stream option \<Rightarrow> renderer \<Rightarrow> renderer" where
  "setStream stream r =
     (if destroyed r then r
      else if (case stream of None \<Rightarrow> False | Some s \<Rightarrow> videoTracks s > 0)
      then r\<lparr>srcObject := stream, isActive := True\<rparr>
      else (let r' = r\<lparr>srcObject := None, isActive := False\<rparr>
            in if currentMaskImage r' \<noteq> None then drawMaskToCanvas r'
               else drawPlaceholder r'))"

text \<open>A callback returns the instance and the lines it wrote with \<^verbatim>\<open>console.warn\<close>.\<close>

definition play_rejected :: "renderer \<Rightarrow> renderer \<times> string list" where
  "play_rejected r = (r, [''Failed to play video stream:''])"

text \<open>
  \<^verbatim>\<open>setMaskImage\<close> returns the instance and the image loads it started (the \<^verbatim>\<open>src\<close> of
  each \<^verbatim>\<open>new Image()\<close>).  \<^verbatim>\<open>!imageUrl\<close> holds for \<^verbatim>\<open>null\<close> and for the empty string.
\<close>

definition setMaskImage :: "string option \<Rightarrow> renderer \<Rightarrow> renderer \<times> string list" where
  "setMaskImage imageUrl r =
     (if destroyed r then (r, [])
      else (case imageUrl of
          None \<Rightarrow>
            (let r' = r\<lparr>currentMaskImage := None\<rparr>
             in (if \<not> isActive r' then drawPlaceholder r' else r', []))
        | Some url \<Rightarrow>
            if url = [] then
              (let r' = r\<lparr>currentMaskImage := None\<rparr>
               in (if \<not> isActive r' then drawPlaceholder r' else r', []))
            else (r\<lparr>maskLoading := True\<rparr>, [url])))"

text \<open>\<^verbatim>\<open>img.onload\<close> of the image created by \<^verbatim>\<open>setMaskImage\<close>.\<close>

definition img_onload :: "image \<Rightarrow> renderer \<Rightarrow> renderer" where
  "img_onload img r =
     (if destroyed r then r
      else (let r' = r\<lparr>currentMaskImage := Some img, maskLoading := False\<rparr>
            in if \<not> isActive r' then drawMaskToCanvas r' else r'))"

text \<open>\<^verbatim>\<open>img.onerror\<close> of the image created by \<^verbatim>\<open>setMaskImage imageUrl\<close>.\<close>

definition img_onerror :: "string \<Rightarrow> renderer \<Rightarrow> renderer \<times> string list" where
  "img_onerror imageUrl r =
     (let r' = r\<lparr>maskLoading := False\<rparr>
      in (if \<not> isActive r' then drawPlaceholder r' else r',
          [''Failed to load mask image: '' @ imageUrl]))"

text \<open>
  \<^verbatim>\<open>update\<close>; the video element's current \<^verbatim>\<open>videoWidth\<close> and \<^verbatim>\<open>videoHeight\<close> are inputs.
\<close>

definition update :: "real \<Rightarrow> nat \<Rightarrow> nat \<Rightarrow> renderer \<Rightarrow> renderer" where
  "update time videoWidth videoHeight r =
     (if destroyed r then r
      else if \<not> isActive r then r
      else if time - lastFrameTime r < frameInterval then r
      else (let r' = r\<lparr>lastFrameTime := time\<rparr>
            in if videoWidth = 0 \<or> videoHeight = 0 then r'
               else drawVideoFrame videoWidth videoHeight r'))"

definition getTextureKey :: "renderer \<Rightarrow> string" where
  "getTextureKey r = textureKey r"

definition isVideoActive :: "renderer \<Rightarrow> bool" where
  "isVideoActive r = isActive r"


text \<open>
  \<^verbatim>\<open>destroy\<close>.  \<^verbatim>\<open>videoElement.remove()\<close> detaches an element that was never inserted into
  the document and changes nothing; \<^verbatim>\<open>scene.textures.exists(textureKey)\<close> is read off the
  \<open>texture\<close> field.
\<close>

definition destroy :: "renderer \<Rightarrow> renderer" where
  "destroy r =
     (if destroyed r then r
      else (let r' = r\<lparr>destroyed := True, srcObject := None, isActive := False,
                        currentMaskImage := None\<rparr>
            in if texture r' \<noteq> None then r'\<lparr>texture := None\<rparr> else r'))"

section \<open>One instance and its pending callbacks\<close>

text \<open>
  The callbacks of an image load fire after the call that started it.  The state of one
  instance together with its environment: the image loads in flight (started by
  \<^verbatim>\<open>setMaskImage\<close>, neither \<^verbatim>\<open>onload\<close> nor \<^verbatim>\<open>onerror\<close> fired yet) and the console.
\<close>

record sys =
  inst :: renderer
  inflight :: "string list"
  console :: "string list"

definition init_sys :: "renderer \<Rightarrow> sys" where
  "init_sys r = \<lparr>inst = r, inflight = [], console = []\<rparr>"

text \<open>
  What can happen to an instance: a method call, or the completion of a load in flight
  (\<open>ImgLoad url w h\<close>: the image at \<open>url\<close> decoded to \<open>w \<times> h\<close>; \<open>ImgError url\<close>: it
  failed).  A completion is possible only for a load that is in flight; \<open>step\<close> is
  \<open>None\<close> otherwise.
\<close>

datatype event =
    SetStream "stream option"
  | SetMaskImage "string option"
  | Update real nat nat
  | Destroy
  | ImgLoad string nat nat
  | ImgError string

fun step :: "event \<Rightarrow> sys \<Rightarrow> sys option" where
  "step (SetStream st) s = Some (s\<lparr>inst := setStream st (inst s)\<rparr>)"
| "step (SetMaskImage u) s =
     Some (s\<lparr>inst := fst (setMaskImage u (inst s)),
             inflight := inflight s @ snd (setMaskImage u (inst s))\<rparr>)"
| "step (Update t vw vh) s = Some (s\<lparr>inst := update t vw vh (inst s)\<rparr>)"
| "step Destroy s = Some (s\<lparr>inst := destroy (inst s)\<rparr>)"
| "step (ImgLoad url w h) s =
     (if url \<in> set (inflight s)
      then Some (s\<lparr>inst := img_onload (Image url w h) (inst s),
                   inflight := remove1 url (inflight s)\<rparr>)
      else None)"
| "step (ImgError url) s =
     (if url \<in> set (inflight s)
      then Some (s\<lparr>inst := fst (img_onerror url (inst s)),
                   inflight := remove1 url (inflight s),
                   console := console s @ snd (img_onerror url (inst s))\<rparr>)
      else None)"

fun run :: "event list \<Rightarrow> sys \<Rightarrow> sys option" where
  "run [] s = Some s"
| "run (e # es) s = (case step e s of None \<Rightarrow> None | Some s' \<Rightarrow> run es s')"

text \<open>A freshly constructed instance, in an environment where both allocations succeed.\<close>

definition env_ok :: env where
  "env_ok = \<lparr>getContext_ok = True, createCanvas_ok = True\<rparr>"

definition fresh :: "string \<Rightarrow> renderer" where
  "fresh key = (case new_VideoAvatarRenderer env_ok key of Inr r \<Rightarrow> r)"

text \<open>A fresh instance with a camera stream attached (one video track).\<close>

definition active_fresh :: renderer where
  "active_fresh = setStream (Some (MediaStream 1 1)) (fresh ''local_video_avatar'')"

section \<open>Sequences of ticks\<close>

text \<open>A tick: the timestamp and the video element's size at that moment.\<close>

type_synonym tick = "real \<times> nat \<times> nat"

fun updates :: "tick list \<Rightarrow> renderer \<Rightarrow> renderer" where
  "updates [] r = r"
| "updates ((t, vw, vh) # ts) r = updates ts (update t vw vh r)"

text \<open>\<^verbatim>\<open>update\<close> performs a video redraw when it draws on the canvas.\<close>

definition video_redraw :: "real \<Rightarrow> nat \<Rightarrow> nat \<Rightarrow> renderer \<Rightarrow> bool" where
  "video_redraw t vw vh r \<longleftrightarrow> canvas (update t vw vh r) \<noteq> canvas r"

text \<open>\<^verbatim>\<open>update\<close> passes its throttle check when it reaches the assignment of \<^verbatim>\<open>lastFrameTime\<close>.\<close>

definition throttle_pass :: "real \<Rightarrow> renderer \<Rightarrow> bool" where
  "throttle_pass t r \<longleftrightarrow>
     \<not> destroyed r \<and> isActive r \<and> \<not> t - lastFrameTime r < frameInterval"

text \<open>The timestamps, in order, of the ticks at which a run of updates redraws the video.\<close>

fun redraw_times :: "tick list \<Rightarrow> renderer \<Rightarrow> real list" where
  "redraw_times [] r = []"
| "redraw_times ((t, vw, vh) # ts) r =
     (if video_redraw t vw vh r then [t] else []) @ redraw_times ts (update t vw vh r)"

fun pass_times :: "tick list \<Rightarrow> renderer \<Rightarrow> real list" where
  "pass_times [] r = []"
| "pass_times ((t, vw, vh) # ts) r =
     (if throttle_pass t r then [t] else []) @ pass_times ts (update t vw vh r)"

text \<open>Successive elements of a list are at least \<open>d\<close> apart.\<close>

fun spaced :: "real \<Rightarrow> real list \<Rightarrow> bool" where
  "spaced d [] = True"
| "spaced d [x] = True"
| "spaced d (x # y # ys) = (d \<le> y - x \<and> spaced d (y # ys))"

text \<open>
  \<open>n\<close> ticks 10 ms apart: \<open>t0, t0 + 10, ..., t0 + 10 * (n - 1)\<close>; the \<open>k\<close>-th tick finds a
  video of size \<open>vw k\<close> by \<open>vh k\<close>.  Twenty-one ticks span 200 ms.
\<close>

definition ticks10 :: "real \<Rightarrow> (nat \<Rightarrow> nat) \<Rightarrow> (nat \<Rightarrow> nat) \<Rightarrow> nat \<Rightarrow> tick list" where
  "ticks10 t0 vw vh n = map (\<lambda>k. (t0 + 10 * real k, vw k, vh k)) [0..<n]"

text \<open>A video element that reports the same size at every tick.\<close>

definition steady :: "nat \<Rightarrow> nat \<Rightarrow> nat" where
  "steady n k = n"

section \<open>The fits, in the words of the specification\<close>

text \<open>
  Cover fit: with \<open>Sa = Sw / Sh\<close> and \<open>Da = Dw / Dh\<close>, a relatively wider source is
  cropped left and right, any other source top and bottom.  The result is the visible
  source rectangle \<open>(sx, sy, sw, sh)\<close>.
\<close>

definition cover_fit_spec :: "real \<Rightarrow> real \<Rightarrow> real \<Rightarrow> real \<Rightarrow> rect" where
  "cover_fit_spec Sw Sh Dw Dh =
     (if Sw / Sh > Dw / Dh
      then ((Sw - Sh * (Dw / Dh)) / 2, 0, Sh * (Dw / Dh), Sh)
      else (0, (Sh - Sw / (Dw / Dh)) / 2, Sw, Sw / (Dw / Dh)))"

text \<open>
  Contain fit: with \<open>Ia = Iw / Ih\<close> and \<open>Da = Dw / Dh\<close>, a relatively wider image is
  shrunk to the destination width and centred vertically, any other image to the
  destination height and centred horizontally.  The result is the destination
  rectangle \<open>(dx, dy, dw, dh)\<close>.
\<close>

definition contain_fit_spec :: "real \<Rightarrow> real \<Rightarrow> real \<Rightarrow> real \<Rightarrow> rect" where
  "contain_fit_spec Iw Ih Dw Dh =
     (if Iw / Ih > Dw / Dh
      then (0, (Dh - Dw / (Iw / Ih)) / 2, Dw, Dw / (Iw / Ih))
      else ((Dw - Dh * (Iw / Ih)) / 2, 0, Dh * (Iw / Ih), Dh))"

section \<open>VideoAvatarManager\<close>

text \<open>
  The manager holds references to renderer objects, and its callers mutate those objects
  through the references it hands out.  The objects live in a store: \<open>heap\<close> lists every
  \<^verbatim>\<open>VideoAvatarRenderer\<close> allocated so far, and a reference is an index into it.
  \<open>renderers\<close> is the \<^verbatim>\<open>Map\<close> of the class in insertion order, \<open>mgr_destroyed\<close> its
  \<^verbatim>\<open>destroyed\<close> flag, and \<open>console_log\<close> collects what the manager writes with
  \<^verbatim>\<open>console.warn\<close>.
\<close>

type_synonym ref = nat

record world =
  renderers :: "(string \<times> ref) list"
  localRenderer :: "ref option"
  mgr_destroyed :: bool
  heap :: "renderer list"
  console_log :: "string list"

definition MAX_CONCURRENT_VIDEO :: nat where
  "MAX_CONCURRENT_VIDEO = 8"

definition deref :: "world \<Rightarrow> ref \<Rightarrow> renderer" where
  "deref w x = heap w ! x"

text \<open>A method call or callback \<open>f\<close> on the object behind a reference.\<close>

definition on_instance :: "ref \<Rightarrow> (renderer \<Rightarrow> renderer) \<Rightarrow> world \<Rightarrow> world" where
  "on_instance x f w = w\<lparr>heap := (heap w)[x := f (deref w x)]\<rparr>"

text \<open>Every reference the manager holds points into the store.\<close>

definition refs_valid :: "world \<Rightarrow> bool" where
  "refs_valid w \<longleftrightarrow>
     list_all (\<lambda>(k, x). x < length (heap w)) (renderers w) \<and>
     (case localRenderer w of None \<Rightarrow> True | Some l \<Rightarrow> l < length (heap w))"

definition new_VideoAvatarManager :: world where
  "new_VideoAvatarManager =
     \<lparr>renderers = [], localRenderer = None, mgr_destroyed = False, heap = [],
      console_log = []\<rparr>"

text \<open>
  The creating methods return what the call returns (the reference, or the error thrown
  by the constructor) together with the world after the call.
\<close>

definition createLocalRenderer :: "env \<Rightarrow> world \<Rightarrow> (error + ref) \<times> world" where
  "createLocalRenderer e w =
     (case localRenderer w of
        Some l \<Rightarrow> (Inr l, w)
      | None \<Rightarrow>
          (case new_VideoAvatarRenderer e ''local_video_avatar'' of
             Inl err \<Rightarrow> (Inl err, w)
           | Inr r \<Rightarrow>
               (Inr (length (heap w)),
                w\<lparr>heap := heap w @ [r], localRenderer := Some (length (heap w))\<rparr>)))"

definition getLocalRenderer :: "world \<Rightarrow> ref option" where
  "getLocalRenderer w = localRenderer w"

definition cap_warning :: string where
  "cap_warning = ''Maximum concurrent video avatars (8) reached''"

definition createRemoteRenderer :: "env \<Rightarrow> string \<Rightarrow> world \<Rightarrow> (error + ref) \<times> world" where
  "createRemoteRenderer e spaceUserId w =
     (case map_of (renderers w) spaceUserId of
        Some existing \<Rightarrow> (Inr existing, w)
      | None \<Rightarrow>
          (let w1 = (if length (renderers w) \<ge> MAX_CONCURRENT_VIDEO
                     then w\<lparr>console_log := console_log w @ [cap_warning]\<rparr> else w)
           in case new_VideoAvatarRenderer e (''remote_video_'' @ spaceUserId) of
                Inl err \<Rightarrow> (Inl err, w1)
              | Inr r \<Rightarrow>
                  (Inr (length (heap w1)),
                   w1\<lparr>heap := heap w1 @ [r],
                      renderers := AList.update spaceUserId (length (heap w1))
                        (renderers w1)\<rparr>)))"

definition getRenderer :: "string \<Rightarrow> world \<Rightarrow> ref option" where
  "getRenderer spaceUserId w = map_of (renderers w) spaceUserId"

definition getOrCreateRenderer :: "env \<Rightarrow> string \<Rightarrow> world \<Rightarrow> (error + ref) \<times> world" where
  "getOrCreateRenderer e spaceUserId w =
     (case map_of (renderers w) spaceUserId of
        Some existing \<Rightarrow> (Inr existing, w)
      | None \<Rightarrow> createRemoteRenderer e spaceUserId w)"

text \<open>
  \<^verbatim>\<open>update\<close> of the manager; \<open>dims x\<close> is the size the video element of instance \<open>x\<close>
  reports during this call.
\<close>

definition manager_update :: "real \<Rightarrow> (ref \<Rightarrow> nat \<times> nat) \<Rightarrow> world \<Rightarrow> world" where
  "manager_update time dims w =
     (if mgr_destroyed w then w
      else (let upd = (\<lambda>x. on_instance x (update time (fst (dims x)) (snd (dims x))));
                w1 = (case localRenderer w of None \<Rightarrow> w | Some l \<Rightarrow> upd l w)
            in fold (\<lambda>(k, x). upd x) (renderers w1) w1))"

definition removeRenderer :: "string \<Rightarrow> world \<Rightarrow> world" where
  "removeRenderer spaceUserId w =
     (case map_of (renderers w) spaceUserId of
        None \<Rightarrow> w
      | Some x \<Rightarrow>
          (let w1 = on_instance x destroy w
           in w1\<lparr>renderers := AList.delete spaceUserId (renderers w1)\<rparr>))"

definition getActiveVideoCount :: "world \<Rightarrow> nat" where
  "getActiveVideoCount w =
     fold (\<lambda>(k, x) count. if isVideoActive (deref w x) then count + 1 else count)
       (renderers w)
       (case localRenderer w of
          None \<Rightarrow> 0
        | Some l \<Rightarrow> if isVideoActive (deref w l) then 1 else 0)"

definition canAddVideoStream :: "world \<Rightarrow> bool" where
  "canAddVideoStream w \<longleftrightarrow> getActiveVideoCount w < MAX_CONCURRENT_VIDEO"

definition getAllTextureKeys :: "world \<Rightarrow> string list" where
  "getAllTextureKeys w =
     (case localRenderer w of None \<Rightarrow> [] | Some l \<Rightarrow> [getTextureKey (deref w l)])
     @ map (\<lambda>(k, x). getTextureKey (deref w x)) (renderers w)"

definition manager_destroy :: "world \<Rightarrow> world" where
  "manager_destroy w =
     (if mgr_destroyed w then w
      else (let w1 = w\<lparr>mgr_destroyed := True\<rparr>;
                w2 = (case localRenderer w1 of None \<Rightarrow> w1 | Some l \<Rightarrow> on_instance l destroy w1);
                w3 = w2\<lparr>localRenderer := None\<rparr>;
                w4 = fold (\<lambda>(k, x). on_instance x destroy) (renderers w3) w3
            in w4\<lparr>renderers := []\<rparr>))"

text \<open>
  What can happen to a manager and its instances: a call of one of its methods, or a
  method call or callback \<open>f\<close> on one instance by whoever holds its reference.
\<close>

datatype mgr_op =
    CreateLocal env
  | CreateRemote env string
  | GetOrCreate env string
  | Remove string
  | UpdateAll real "ref \<Rightarrow> nat \<times> nat"
  | DestroyAll
  | OnInstance ref "renderer \<Rightarrow> renderer"

fun mgr_step :: "mgr_op \<Rightarrow> world \<Rightarrow> world" where
  "mgr_step (CreateLocal e) w = snd (createLocalRenderer e w)"
| "mgr_step (CreateRemote e k) w = snd (createRemoteRenderer e k w)"
| "mgr_step (GetOrCreate e k) w = snd (getOrCreateRenderer e k w)"
| "mgr_step (Remove k) w = removeRenderer k w"
| "mgr_step (UpdateAll t dims) w = manager_update t dims w"
| "mgr_step DestroyAll w = manager_destroy w"
| "mgr_step (OnInstance x f) w = on_instance x f w"

fun mgr_run :: "mgr_op list \<Rightarrow> world \<Rightarrow> world" where
  "mgr_run [] w = w"
| "mgr_run (a # as) w = mgr_run as (mgr_step a w)"

section \<open>Concrete states\<close>

text \<open>
  A fresh instance on which the load of a 64 by 32 mask image has completed, and the
  same instance with a camera stream attached afterwards.
\<close>

definition mask_64x32 :: image where
  "mask_64x32 = Image ''/resources/masks/avatar-1.svg'' 64 32"

definition masked_fresh :: renderer where
  "masked_fresh =
     img_onload mask_64x32
       (fst (setMaskImage (Some ''/resources/masks/avatar-1.svg'') (fresh ''remote_video_7'')))"

definition masked_active :: renderer where
  "masked_active = setStream (Some (MediaStream 1 1)) masked_fresh"









section \<open>The renderer: basic facts\<close>

lemma destroyed_noop:
  "destroyed r \<Longrightarrow>
     setStream st r = r \<and> fst (setMaskImage u r) = r \<and> update t vw vh r = r
     \<and> destroy r = r \<and> img_onload img r = r"
  by (simp add: setStream_def setMaskImage_def update_def destroy_def img_onload_def)

lemma fresh_simp:
  "fresh key = \<lparr>textureKey = key, lastFrameTime = 0, isActive = False,
         currentMaskImage = None, maskLoading = False, destroyed = False,
         srcObject = None, canvas = placeholder_ops, texture = Some placeholder_ops\<rparr>"
  by (simp add: fresh_def new_VideoAvatarRenderer_def env_ok_def drawPlaceholder_def
      refreshTexture_def)


lemma active_fresh_simp:
  "active_fresh = \<lparr>textureKey = ''local_video_avatar'', lastFrameTime = 0, isActive = True,
         currentMaskImage = None, maskLoading = False, destroyed = False,
         srcObject = Some (MediaStream 1 1), canvas = placeholder_ops,
         texture = Some placeholder_ops\<rparr>"
  by (simp add: active_fresh_def fresh_simp setStream_def)

lemma masked_fresh_simp:
  "masked_fresh = \<lparr>textureKey = ''remote_video_7'', lastFrameTime = 0, isActive = False,
         currentMaskImage = Some mask_64x32, maskLoading = False, destroyed = False,
         srcObject = None, canvas = placeholder_ops @ mask_ops mask_64x32,
         texture = Some (placeholder_ops @ mask_ops mask_64x32)\<rparr>"
  by (simp add: masked_fresh_def fresh_simp setMaskImage_def img_onload_def
      drawMaskToCanvas_def refreshTexture_def)

lemma masked_active_simp:
  "masked_active = \<lparr>textureKey = ''remote_video_7'', lastFrameTime = 0, isActive = True,
         currentMaskImage = Some mask_64x32, maskLoading = False, destroyed = False,
         srcObject = Some (MediaStream 1 1), canvas = placeholder_ops @ mask_ops mask_64x32,
         texture = Some (placeholder_ops @ mask_ops mask_64x32)\<rparr>"
  by (simp add: masked_active_def masked_fresh_simp setStream_def)



lemma video_ops_nonempty: "video_ops vw vh \<noteq> []"
  by (simp add: video_ops_def)

section \<open>The throttle of \<^verbatim>\<open>update\<close>\<close>

lemma update_skip: "\<not> throttle_pass t r \<Longrightarrow> update t vw vh r = r"
  by (auto simp: throttle_pass_def update_def)

lemma update_pass:
  "throttle_pass t r \<Longrightarrow>
     update t vw vh r =
       (if vw = 0 \<or> vh = 0 then r\<lparr>lastFrameTime := t\<rparr>
        else r\<lparr>lastFrameTime := t, canvas := canvas r @ video_ops vw vh,
               texture := map_option (\<lambda>_. canvas r @ video_ops vw vh) (texture r)\<rparr>)"
  by (simp add: throttle_pass_def update_def drawVideoFrame_def refreshTexture_def)

lemma video_redraw_iff:
  "video_redraw t vw vh r \<longleftrightarrow> throttle_pass t r \<and> vw \<noteq> 0 \<and> vh \<noteq> 0"
  by (cases "throttle_pass t r")
     (simp_all add: video_redraw_def update_skip update_pass video_ops_nonempty)

lemma update_lastFrameTime:
  "lastFrameTime (update t vw vh r) = (if throttle_pass t r then t else lastFrameTime r)"
  by (cases "throttle_pass t r") (simp_all add: update_skip update_pass)

lemma update_flags:
  "destroyed (update t vw vh r) = destroyed r" "isActive (update t vw vh r) = isActive r"
  by (cases "throttle_pass t r"; simp add: update_skip update_pass)+

lemma update_lastFrameTime_mono: "lastFrameTime r \<le> lastFrameTime (update t vw vh r)"
  by (simp add: update_lastFrameTime throttle_pass_def frameInterval_def)

lemma updates_flags:
  "destroyed (updates ticks r) = destroyed r" "isActive (updates ticks r) = isActive r"
  by (induction ticks r rule: updates.induct; simp add: update_flags)+

lemma updates_lastFrameTime_mono: "lastFrameTime r \<le> lastFrameTime (updates ticks r)"
proof (induction ticks r rule: updates.induct)
  case (2 t vw vh ts r)
  have "lastFrameTime r \<le> lastFrameTime (update t vw vh r)"
    by (rule update_lastFrameTime_mono)
  with 2 show ?case by simp
qed simp

lemma updates_lastFrameTime:
  "lastFrameTime (updates ticks r) = last (lastFrameTime r # pass_times ticks r)"
proof (induction ticks r rule: updates.induct)
  case (2 t vw vh ts r)
  show ?case
    by (cases "throttle_pass t r") (simp_all add: 2 update_lastFrameTime)
qed simp

lemma updates_lastFrameTime_le:
  "lastFrameTime r \<le> B \<Longrightarrow> (\<And>x. x \<in> fst ` set ticks \<Longrightarrow> x \<le> B) \<Longrightarrow>
   lastFrameTime (updates ticks r) \<le> B"
proof (induction ticks r rule: updates.induct)
  case (2 t vw vh ts r)
  have "t \<le> B" using 2(3)[of t] by simp
  with 2(2) have "lastFrameTime (update t vw vh r) \<le> B" by (simp add: update_lastFrameTime)
  then show ?case using 2(1,3) by simp
qed simp

lemma pass_times_lower:
  "x \<in> set (pass_times ticks r) \<Longrightarrow> lastFrameTime r + frameInterval \<le> x"
proof (induction ticks r rule: pass_times.induct)
  case (2 t vw vh ts r)
  show ?case
  proof (cases "x \<in> set (pass_times ts (update t vw vh r))")
    case True
    then have "lastFrameTime (update t vw vh r) + frameInterval \<le> x" by (rule 2(1))
    moreover have "lastFrameTime r \<le> lastFrameTime (update t vw vh r)"
      by (rule update_lastFrameTime_mono)
    ultimately show ?thesis by simp
  next
    case False
    with 2(2) have "throttle_pass t r" and "x = t" by (auto split: if_splits)
    then show ?thesis by (simp add: throttle_pass_def)
  qed
qed simp

lemma redraw_subset_pass: "set (redraw_times ticks r) \<subseteq> set (pass_times ticks r)"
  by (induction ticks r rule: redraw_times.induct) (auto simp: video_redraw_iff)

lemma redraw_times_lower:
  "x \<in> set (redraw_times ticks r) \<Longrightarrow> lastFrameTime r + frameInterval \<le> x"
  using redraw_subset_pass pass_times_lower by blast

lemma spaced_Cons:
  "spaced d xs \<Longrightarrow> (\<And>y. y \<in> set xs \<Longrightarrow> x + d \<le> y) \<Longrightarrow> spaced d (x # xs)"
  by (cases xs) (auto simp: algebra_simps)

lemma spaced_redraw_times: "spaced frameInterval (redraw_times ticks r)"
proof (induction ticks r rule: redraw_times.induct)
  case (2 t vw vh ts r)
  show ?case
  proof (cases "video_redraw t vw vh r")
    case True
    then have "lastFrameTime (update t vw vh r) = t"
      by (simp add: update_lastFrameTime video_redraw_iff)
    then have "\<And>y. y \<in> set (redraw_times ts (update t vw vh r)) \<Longrightarrow> t + frameInterval \<le> y"
      using redraw_times_lower by fastforce
    with 2 True show ?thesis by (simp add: spaced_Cons)
  next
    case False
    with 2 show ?thesis by simp
  qed
qed simp

lemma redraw_times_ticks: "set (redraw_times ticks r) \<subseteq> fst ` set ticks"
  by (induction ticks r rule: redraw_times.induct) auto

lemma redraw_times_append:
  "redraw_times (xs @ ys) r = redraw_times xs r @ redraw_times ys (updates xs r)"
  by (induction xs r rule: redraw_times.induct) simp_all

text \<open>
  With a redraw pending (the throttle window has elapsed at some tick of the run) and a
  video source that reports a size at every tick, a live active instance redraws.
\<close>

lemma redraw_progress:
  "\<not> destroyed r \<Longrightarrow> isActive r \<Longrightarrow>
   list_all (\<lambda>(t, vw, vh). vw \<noteq> 0 \<and> vh \<noteq> 0) ticks \<Longrightarrow>
   (t, vw, vh) \<in> set ticks \<Longrightarrow> frameInterval \<le> t - lastFrameTime r \<Longrightarrow>
   redraw_times ticks r \<noteq> []"
proof (induction ticks r rule: redraw_times.induct)
  case (2 t1 vw1 vh1 ts r)
  show ?case
  proof (cases "throttle_pass t1 r")
    case True
    with 2(3,4) show ?thesis by (simp add: video_redraw_iff)
  next
    case False
    then have same: "update t1 vw1 vh1 r = r" by (rule update_skip)
    from False 2(2,3,6) have "(t, vw, vh) \<noteq> (t1, vw1, vh1)"
      by (auto simp: throttle_pass_def)
    with 2(5) have "(t, vw, vh) \<in> set ts" by auto
    with 2 same show ?thesis by simp
  qed
qed simp

subsection \<open>Ticks on a 10 ms grid\<close>

lemma grid_gap:
  fixes i j :: nat
  assumes "66 \<le> (t0 + 10 * real j) - (t0 + 10 * real i)"
  shows "70 \<le> (t0 + 10 * real j) - (t0 + 10 * real i)"
proof -
  from assms have "real i + 6.6 \<le> real j" by simp
  then have "i + 7 \<le> j" by linarith
  then have "real i + 7 \<le> real j" by linarith
  then show ?thesis by simp
qed

lemma spaced_grid:
  "spaced 66 xs \<Longrightarrow> (\<And>x. x \<in> set xs \<Longrightarrow> \<exists>k::nat. x = t0 + 10 * real k) \<Longrightarrow> spaced 70 xs"
proof (induction "66::real" xs rule: spaced.induct)
  case (3 x y ys)
  obtain i :: nat where i: "x = t0 + 10 * real i" using 3(3)[of x] by auto
  obtain j :: nat where j: "y = t0 + 10 * real j" using 3(3)[of y] by auto
  from 3(2) have "66 \<le> y - x" by simp
  then have "70 \<le> y - x" unfolding i j by (rule grid_gap)
  moreover have "spaced 70 (y # ys)" using 3 by simp
  ultimately show ?case by simp
qed simp_all

lemma four_or_more:
  "\<not> length xs \<le> 3 \<Longrightarrow> \<exists>a b c d zs. xs = a # b # c # d # zs"
  by (cases xs; simp; cases "tl xs"; simp; cases "tl (tl xs)"; simp; cases "tl (tl (tl xs))"; simp)

lemma spaced_70_count:
  assumes "spaced 70 xs" and "\<And>x. x \<in> set xs \<Longrightarrow> t0 \<le> x \<and> x \<le> t0 + 200"
  shows "length xs \<le> 3"
proof (rule ccontr)
  assume "\<not> length xs \<le> 3"
  then obtain a b c d zs where xs: "xs = a # b # c # d # zs"
    using four_or_more by blast
  from assms(1) have "a + 210 \<le> d" unfolding xs by simp
  moreover have "t0 \<le> a" "d \<le> t0 + 200" using assms(2) unfolding xs by simp_all
  ultimately show False by simp
qed

lemma ticks10_times:
  assumes "n \<le> 21" and "x \<in> fst ` set (ticks10 t0 vw vh n)"
  shows "(\<exists>k::nat. x = t0 + 10 * real k) \<and> t0 \<le> x \<and> x \<le> t0 + 200"
proof -
  from assms(2) obtain k where k: "k < n" "x = t0 + 10 * real k"
    by (auto simp: ticks10_def)
  from k(1) assms(1) have "real k \<le> 20" by simp
  with k(2) show ?thesis by auto
qed

lemma ticks10_count_le:
  assumes "n \<le> 21"
  shows "length (redraw_times (ticks10 t0 vw vh n) r) \<le> 3"
proof -
  let ?L = "redraw_times (ticks10 t0 vw vh n) r"
  have sub: "x \<in> fst ` set (ticks10 t0 vw vh n)" if "x \<in> set ?L" for x
    using that redraw_times_ticks[of "ticks10 t0 vw vh n" r] by (rule subsetD[rotated])
  have grid: "\<exists>k::nat. x = t0 + 10 * real k" if "x \<in> set ?L" for x
    using ticks10_times[OF assms sub[OF that]] by (rule conjunct1)
  have range: "t0 \<le> x \<and> x \<le> t0 + 200" if "x \<in> set ?L" for x
    using ticks10_times[OF assms sub[OF that]] by (rule conjunct2)
  have "spaced 66 ?L"
    using spaced_redraw_times[of "ticks10 t0 vw vh n" r] by (simp only: frameInterval_def)
  then have "spaced 70 ?L" using grid by (rule spaced_grid)
  then show ?thesis using range by (rule spaced_70_count)
qed

lemma ticks10_split:
  assumes "8 \<le> n"
  shows "ticks10 t0 vw vh n = map (\<lambda>k. (t0 + 10 * real k, vw k, vh k)) [0..<8]
      @ map (\<lambda>k. (t0 + 10 * real k, vw k, vh k)) [8..<n]"
proof -
  have "[0..<8 + (n - 8)] = [0..<8] @ [8..<8 + (n - 8)]"
    by (rule upt_add_eq_append) simp
  with assms have "[0..<n] = [0..<8] @ [8..<n]" by simp
  then show ?thesis by (simp add: ticks10_def del: upt.simps)
qed

lemma ticks_part_ready:
  assumes "\<And>k. k < n \<Longrightarrow> vw k \<noteq> 0 \<and> vh k \<noteq> 0" and "j \<le> n"
  shows "list_all (\<lambda>(t, vw, vh). vw \<noteq> 0 \<and> vh \<noteq> 0)
           (map (\<lambda>k. (t0 + 10 * real k, vw k, vh k)) [i..<j])"
  unfolding list_all_iff using assms by (auto simp del: upt.simps upt_rec_numeral)

lemma ticks_part_mem:
  "i \<le> k \<Longrightarrow> k < j \<Longrightarrow>
     (t0 + 10 * real k, vw k, vh k) \<in> set (map (\<lambda>k. (t0 + 10 * real k, vw k, vh k)) [i..<j])"
  by (auto simp del: upt.simps upt_rec_numeral)

lemma ticks_part_le:
  assumes "x \<in> fst ` set (map (\<lambda>k. (t0 + 10 * real k, vw k, vh k)) [i..<j])"
  shows "x \<le> t0 + 10 * real j"
proof -
  from assms obtain k where "k < j" "x = t0 + 10 * real k"
    by (auto simp del: upt.simps upt_rec_numeral)
  then show ?thesis by simp
qed

text \<open>
  Among the first eight ticks the tick at \<open>t0 + 70\<close> is due if none before it was, and
  whatever happened there, the tick at \<open>t0 + 150\<close> is due again if none since was.
\<close>

lemma ticks10_count_ge:
  assumes "\<not> destroyed r" "isActive r" "lastFrameTime r \<le> t0" and n: "16 \<le> n"
    and rdy: "\<And>k. k < n \<Longrightarrow> vw k \<noteq> 0 \<and> vh k \<noteq> 0"
  shows "2 \<le> length (redraw_times (ticks10 t0 vw vh n) r)"
proof -
  let ?f = "\<lambda>k. (t0 + 10 * real k, vw k, vh k)"
  let ?A = "map ?f [0..<8]" and ?B = "map ?f [8..<n]"
  let ?r1 = "updates ?A r"
  have n8: "8 \<le> n" and n15: "15 < n" using n by linarith+
  have rdyA: "list_all (\<lambda>(t, vw, vh). vw \<noteq> 0 \<and> vh \<noteq> 0) ?A"
    using rdy n8 by (rule ticks_part_ready)
  have rdyB: "list_all (\<lambda>(t, vw, vh). vw \<noteq> 0 \<and> vh \<noteq> 0) ?B"
    using rdy le_refl by (rule ticks_part_ready)
  have memA: "(t0 + 10 * real (7::nat), vw 7, vh 7) \<in> set ?A"
    by (rule ticks_part_mem) simp_all
  have gapA: "frameInterval \<le> (t0 + 10 * real (7::nat)) - lastFrameTime r"
    using assms(3) by (simp add: frameInterval_def)
  have A: "redraw_times ?A r \<noteq> []"
    by (rule redraw_progress[OF assms(1,2) rdyA memA gapA])
  have r1: "\<not> destroyed ?r1" "isActive ?r1"
    using assms(1,2) by (simp_all only: updates_flags not_False_eq_True)
  have "lastFrameTime ?r1 \<le> t0 + 10 * real (8::nat)"
  proof (rule updates_lastFrameTime_le)
    show "lastFrameTime r \<le> t0 + 10 * real (8::nat)" using assms(3) by simp
    show "x \<le> t0 + 10 * real (8::nat)" if "x \<in> fst ` set ?A" for x
      using that by (rule ticks_part_le)
  qed
  then have gapB: "frameInterval \<le> (t0 + 10 * real (15::nat)) - lastFrameTime ?r1"
    by (simp add: frameInterval_def del: upt.simps upt_rec_numeral)
  have memB: "(t0 + 10 * real (15::nat), vw 15, vh 15) \<in> set ?B"
    using _ n15 by (rule ticks_part_mem) simp
  have B: "redraw_times ?B ?r1 \<noteq> []"
    by (rule redraw_progress[OF r1 rdyB memB gapB])
  have "redraw_times (ticks10 t0 vw vh n) r = redraw_times ?A r @ redraw_times ?B ?r1"
    by (simp only: ticks10_split[OF n8] redraw_times_append)
  then have "length (redraw_times (ticks10 t0 vw vh n) r)
      = length (redraw_times ?A r) + length (redraw_times ?B ?r1)"
    by (simp only: length_append)
  moreover have "1 \<le> length (redraw_times ?A r)" using A
    by (cases "redraw_times ?A r") simp_all
  moreover have "1 \<le> length (redraw_times ?B ?r1)" using B
    by (cases "redraw_times ?B ?r1") simp_all
  ultimately show ?thesis by linarith
qed

lemma upt21: "[0..<21] = [0,1,2,3,4,5,6,7,8,9,10,11,12,13,14,15,16,17,18,19,20]"
  by (simp add: upt_rec)

lemma upt20: "[0..<20] = [0,1,2,3,4,5,6,7,8,9,10,11,12,13,14,15,16,17,18,19]"
  by (simp add: upt_rec)

lemma fresh_run_10ms:
  "redraw_times (ticks10 0 (steady 640) (steady 480) 21) active_fresh = [70, 140]"
  "redraw_times (ticks10 0 (steady 640) (steady 480) 20) active_fresh = [70, 140]"
  by (simp_all add: ticks10_def upt21 upt20 steady_def active_fresh_simp video_redraw_iff
      throttle_pass_def update_def drawVideoFrame_def refreshTexture_def frameInterval_def)

lemma running_run_10ms:
  "redraw_times [(999, 640, 480)] active_fresh = [999]"
  "redraw_times (ticks10 1000 (steady 640) (steady 480) 21) (update 999 640 480 active_fresh)
     = [1070, 1140]"
  by (simp_all add: ticks10_def upt21 steady_def active_fresh_simp video_redraw_iff
      throttle_pass_def update_def drawVideoFrame_def refreshTexture_def frameInterval_def)

section \<open>The manager: basic facts\<close>

lemma fold_count:
  "fold (\<lambda>(k, x) count. if P x then count + 1 else count) xs n
     = n + length (filter (\<lambda>(k, x). P x) xs)"
  by (induction xs arbitrary: n) (auto split: prod.splits)


lemma on_instance_fields [simp]:
  "renderers (on_instance x f w) = renderers w"
  "localRenderer (on_instance x f w) = localRenderer w"
  "mgr_destroyed (on_instance x f w) = mgr_destroyed w"
  "console_log (on_instance x f w) = console_log w"
  "length (heap (on_instance x f w)) = length (heap w)"
  by (simp_all add: on_instance_def)

lemma fold_on_instance_fields [simp]:
  "renderers (fold (\<lambda>(k, x). on_instance x (g x)) xs w) = renderers w"
  "localRenderer (fold (\<lambda>(k, x). on_instance x (g x)) xs w) = localRenderer w"
  "mgr_destroyed (fold (\<lambda>(k, x). on_instance x (g x)) xs w) = mgr_destroyed w"
  "console_log (fold (\<lambda>(k, x). on_instance x (g x)) xs w) = console_log w"
  "length (heap (fold (\<lambda>(k, x). on_instance x (g x)) xs w)) = length (heap w)"
  by (induction xs arbitrary: w; simp split: prod.splits)+




text \<open>Every reference held by the manager stays inside the store.\<close>

lemma list_all_update:
  "list_all P al \<Longrightarrow> P (k, v) \<Longrightarrow> list_all P (AList.update k v al)"
  by (induction al) auto

lemma list_all_delete: "list_all P al \<Longrightarrow> list_all P (AList.delete k al)"
  by (induction al) auto

lemma list_all_weaken:
  "list_all (\<lambda>(k, x). x < n) al \<Longrightarrow> n \<le> m \<Longrightarrow> list_all (\<lambda>(k, x). x < (m::nat)) al"
  by (induction al) auto

lemma step_refs_valid:
  assumes v: "refs_valid w"
  shows "refs_valid (mgr_step a w)"
proof (cases a)
  case (CreateLocal e)
  with v show ?thesis
    by (auto simp: refs_valid_def createLocalRenderer_def
        intro: list_all_weaken split: option.splits sum.splits)
next
  case (CreateRemote e k)
  with v show ?thesis
    by (auto simp: refs_valid_def createRemoteRenderer_def Let_def
        intro!: list_all_update intro: list_all_weaken less_SucI
        split: option.splits sum.splits)
next
  case (GetOrCreate e k)
  with v show ?thesis
    by (auto simp: refs_valid_def getOrCreateRenderer_def createRemoteRenderer_def Let_def
        intro!: list_all_update intro: list_all_weaken less_SucI
        split: option.splits sum.splits)
next
  case (Remove k)
  with v show ?thesis
    by (auto simp: refs_valid_def removeRenderer_def Let_def
        intro: list_all_delete split: option.splits)
next
  case (UpdateAll t dims)
  with v show ?thesis
    by (auto simp: refs_valid_def manager_update_def Let_def split: option.splits)
next
  case DestroyAll
  with v show ?thesis
    by (auto simp: refs_valid_def manager_destroy_def Let_def split: option.splits)
next
  case (OnInstance x f)
  with v show ?thesis by (simp add: refs_valid_def split: option.splits)
qed

lemma run_refs_valid: "refs_valid (mgr_run ops new_VideoAvatarManager)"
proof -
  have "refs_valid w \<Longrightarrow> refs_valid (mgr_run ops w)" for w
    by (induction ops arbitrary: w) (simp_all add: step_refs_valid del: mgr_step.simps)
  then show ?thesis by (simp add: refs_valid_def new_VideoAvatarManager_def)
qed

lemma getActiveVideoCount_eq:
  "getActiveVideoCount w =
     (case localRenderer w of
        None \<Rightarrow> 0
      | Some l \<Rightarrow> if isVideoActive (deref w l) then 1 else 0)
     + length (filter (\<lambda>(k, x). isVideoActive (deref w x)) (renderers w))"
  by (simp add: getActiveVideoCount_def fold_count)









section \<open>The claims\<close>

text \<open>
  \<^bold>\<open>C1\<close>.  Once \<^verbatim>\<open>destroy()\<close> has run, every later call of \<^verbatim>\<open>setStream\<close>, \<^verbatim>\<open>setMaskImage\<close>,
  \<^verbatim>\<open>update\<close> or \<^verbatim>\<open>destroy\<close> and every later callback of an image load leaves every field
  of the instance unchanged.

  The four methods and \<^verbatim>\<open>onload\<close> return at once on a destroyed instance
  (\<open>destroyed_noop\<close>).  \<^verbatim>\<open>onerror\<close> has no such check.  On a fresh instance, after
  \<^verbatim>\<open>setMaskImage("mask.png")\<close> and \<^verbatim>\<open>destroy()\<close>, the failure of that load clears
  \<^verbatim>\<open>maskLoading\<close> and draws the placeholder on the canvas of the destroyed instance.
\<close>

theorem C1_onerror_after_destroy:
  "(case run [SetMaskImage (Some ''mask.png''), Destroy] (init_sys (fresh ''k'')) of
      None \<Rightarrow> False
    | Some s \<Rightarrow>
        destroyed (inst s) \<and> maskLoading (inst s) \<and> canvas (inst s) = placeholder_ops \<and>
        (case step (ImgError ''mask.png'') s of
           None \<Rightarrow> False
         | Some s' \<Rightarrow>
             inst s' \<noteq> inst s \<and> \<not> maskLoading (inst s') \<and>
             canvas (inst s') = placeholder_ops @ placeholder_ops))"
  by (simp add: init_sys_def fresh_simp setMaskImage_def destroy_def img_onerror_def
      drawPlaceholder_def refreshTexture_def)

text \<open>
  \<^bold>\<open>C2\<close>.  A video redraw is performed only when
  \<open>timestampMs - lastFrameTimestamp \<ge> 66\<close>, so two successive video redraws are at least
  66 ms apart; over ticks 10 ms apart spanning 200 ms the video compositor runs 3 to 4
  times.

  The count is not 3 to 4: a fresh instance with a camera stream and a 640 by 480
  source, ticked at \<open>0, 10, ..., 200\<close> (or at \<open>0, 10, ..., 190\<close>), redraws twice, at 70
  and at 140; and the same instance, having redrawn at 999, redraws twice, at 1070 and
  at 1140, when ticked at \<open>1000, 1010, ..., 1200\<close>.
\<close>

theorem C2_fresh_instance_redraws_twice:
  "length (redraw_times (ticks10 0 (steady 640) (steady 480) 21) active_fresh) = 2
   \<and> length (redraw_times (ticks10 0 (steady 640) (steady 480) 20) active_fresh) = 2
   \<and> redraw_times [(999, 640, 480)] active_fresh = [999]
   \<and> length (redraw_times (ticks10 1000 (steady 640) (steady 480) 21)
        (update 999 640 480 active_fresh)) = 2"
  using fresh_run_10ms running_run_10ms by simp

text \<open>
  \<^bold>\<open>C2\<close>, amended.  The throttle period is 66 ms.  A video redraw is performed only when
  \<open>timestampMs - lastFrameTimestamp \<ge> 66\<close>, and in every sequence of updates (whatever
  the timestamps) two successive video redraws are at least 66 ms apart.  Over ticks
  10 ms apart spanning 200 ms (\<open>t0, t0 + 10, ...\<close>, up to 21 ticks) the video compositor
  runs at most 3 times; and over 16 ticks or more it runs at least twice when the
  instance is live and video-active, \<open>lastFrameTimestamp \<le> t0\<close> and the source reports
  a non-zero size at every tick.
\<close>

theorem C2_throttle:
  "frameInterval = 66
   \<and> (video_redraw t vw vh r \<longrightarrow> frameInterval \<le> t - lastFrameTime r)
   \<and> spaced frameInterval (redraw_times ticks r)
   \<and> (n \<le> 21 \<longrightarrow> length (redraw_times (ticks10 t0 vws vhs n) r) \<le> 3)
   \<and> (16 \<le> n \<and> \<not> destroyed r \<and> isActive r \<and> lastFrameTime r \<le> t0
        \<and> (\<forall>k<n. vws k \<noteq> 0 \<and> vhs k \<noteq> 0)
      \<longrightarrow> 2 \<le> length (redraw_times (ticks10 t0 vws vhs n) r))"
proof (intro conjI impI)
  show "frameInterval = 66" by (simp add: frameInterval_def)
  show "frameInterval \<le> t - lastFrameTime r" if "video_redraw t vw vh r"
    using that by (simp add: video_redraw_iff throttle_pass_def)
  show "spaced frameInterval (redraw_times ticks r)" by (rule spaced_redraw_times)
  show "length (redraw_times (ticks10 t0 vws vhs n) r) \<le> 3" if "n \<le> 21"
    using that by (rule ticks10_count_le)
  show "2 \<le> length (redraw_times (ticks10 t0 vws vhs n) r)"
    if "16 \<le> n \<and> \<not> destroyed r \<and> isActive r \<and> lastFrameTime r \<le> t0
        \<and> (\<forall>k<n. vws k \<noteq> 0 \<and> vhs k \<noteq> 0)"
    using that by (intro ticks10_count_ge) simp_all
qed

theorem C2_throttle_witness:
  "video_redraw 70 640 480 active_fresh
   \<and> frameInterval \<le> 70 - lastFrameTime active_fresh
   \<and> spaced frameInterval (redraw_times (ticks10 0 (steady 640) (steady 480) 21) active_fresh)
   \<and> (21::nat) \<le> 21 \<and> (16::nat) \<le> 21
   \<and> \<not> destroyed active_fresh \<and> isActive active_fresh \<and> lastFrameTime active_fresh \<le> 0
   \<and> 2 \<le> length (redraw_times (ticks10 0 (steady 640) (steady 480) 21) active_fresh)
   \<and> length (redraw_times (ticks10 0 (steady 640) (steady 480) 21) active_fresh) \<le> 3"
proof -
  have h: "video_redraw 70 640 480 active_fresh"
    "\<not> destroyed active_fresh" "isActive active_fresh" "lastFrameTime active_fresh \<le> 0"
    by (simp_all add: video_redraw_iff throttle_pass_def frameInterval_def active_fresh_simp)
  have s: "\<forall>k<21. steady 640 k \<noteq> 0 \<and> steady 480 k \<noteq> 0"
    by (simp add: steady_def)
  from C2_throttle [of 70 640 480 active_fresh
      "ticks10 0 (steady 640) (steady 480) 21" 21 0 "steady 640" "steady 480"] h s
  show ?thesis by simp
qed

text \<open>
  \<^bold>\<open>C3\<close>.  For a video frame of positive width \<open>Sw\<close> and height \<open>Sh\<close> and the 32 by 32
  destination, the video compositor draws the cover-fit source rectangle of the
  specification (left and right cropped when \<open>Sw / Sh > Dw / Dh\<close>, top and bottom
  otherwise), scaled onto the whole destination.
\<close>

theorem C3_cover_fit:
  assumes "0 < Sw" and "0 < Sh"
    and "\<not> destroyed r" and "isActive r" and "frameInterval \<le> t - lastFrameTime r"
  shows "canvas (update t Sw Sh r) = canvas r @
           [ClearRect (0, 0, 32, 32),
            DrawVideo (cover_fit_spec (real Sw) (real Sh) 32 32) (0, 0, 32, 32)]"
  using assms
  by (simp add: update_def drawVideoFrame_def refreshTexture_def video_ops_def
      videoSourceRect_def cover_fit_spec_def SPRITE_WIDTH_def SPRITE_HEIGHT_def Let_def)

theorem C3_cover_fit_witness:
  "(0::nat) < 1920 \<and> (0::nat) < 1080 \<and> \<not> destroyed active_fresh \<and> isActive active_fresh
   \<and> frameInterval \<le> 100 - lastFrameTime active_fresh
   \<and> canvas (update 100 1920 1080 active_fresh) = canvas active_fresh @
           [ClearRect (0, 0, 32, 32), DrawVideo (420, 0, 1080, 1080) (0, 0, 32, 32)]"
  using C3_cover_fit [of 1920 1080 active_fresh 100]
  by (simp add: active_fresh_simp frameInterval_def cover_fit_spec_def)

text \<open>
  The cover-fit rectangle lies inside the frame, is centred, and has the aspect of the
  (square) destination: nothing is letterboxed and nothing is distorted.
\<close>

lemma cover_fit_inside:
  assumes "0 < Sw" and "0 < Sh" and "videoSourceRect Sw Sh = (sx, sy, sw, sh)"
  shows "0 \<le> sx \<and> 0 \<le> sy \<and> sx + sw \<le> real Sw \<and> sy + sh \<le> real Sh
         \<and> sw = sh \<and> sx = real Sw - (sx + sw) \<and> sy = real Sh - (sy + sh)"
  using assms
  by (auto simp: videoSourceRect_def SPRITE_WIDTH_def SPRITE_HEIGHT_def Let_def
      split: if_splits)

text \<open>
  \<^bold>\<open>C4\<close>.  For a cached mask image of positive width and height and the 32 by 32
  destination, the mask compositor fills the destination with the fixed colour
  \<^verbatim>\<open>#333333\<close> and then draws the image into the contain-fit rectangle of the specification
  (full width and vertically centred when \<open>Ia > Da\<close>, full height and horizontally
  centred otherwise).
\<close>

theorem C4_contain_fit:
  assumes "currentMaskImage r = Some img" and "0 < img_width img" and "0 < img_height img"
  shows "canvas (drawMaskToCanvas r) = canvas r @
           [FillRect ''#333333'' (0, 0, 32, 32),
            DrawImage img (Some (contain_fit_spec (real (img_width img))
              (real (img_height img)) 32 32))]"
  using assms
  by (simp add: drawMaskToCanvas_def refreshTexture_def mask_ops_def maskDestRect_def
      contain_fit_spec_def SPRITE_WIDTH_def SPRITE_HEIGHT_def Let_def)

theorem C4_contain_fit_witness:
  "currentMaskImage masked_fresh = Some mask_64x32
   \<and> 0 < img_width mask_64x32 \<and> 0 < img_height mask_64x32
   \<and> canvas (drawMaskToCanvas masked_fresh) = canvas masked_fresh @
        [FillRect ''#333333'' (0, 0, 32, 32), DrawImage mask_64x32 (Some (0, 8, 32, 16))]"
  using C4_contain_fit [of masked_fresh mask_64x32]
  by (simp add: masked_fresh_simp mask_64x32_def contain_fit_spec_def)

text \<open>
  The contain-fit rectangle lies inside the destination, is centred, keeps the aspect of
  the image and touches two opposite edges of the destination.
\<close>

lemma contain_fit_inside:
  assumes "0 < w" and "0 < h" and "maskDestRect w h = Some (dx, dy, dw, dh)"
  shows "0 \<le> dx \<and> 0 \<le> dy \<and> dx + dw \<le> 32 \<and> dy + dh \<le> 32
         \<and> dw * real h = dh * real w \<and> dx = 32 - (dx + dw) \<and> dy = 32 - (dy + dh)
         \<and> (dw = 32 \<or> dh = 32)"
proof (cases "real w / real h > 1")
  case True
  define q where "q = 32 / (real w / real h)"
  have r: "dx = 0" "dy = (32 - q) / 2" "dw = 32" "dh = q"
    using assms True
    by (simp_all add: maskDestRect_def SPRITE_WIDTH_def SPRITE_HEIGHT_def Let_def q_def)
  have q: "0 \<le> q" "q \<le> 32" using True assms(1,2) by (simp_all add: q_def pos_divide_le_eq)
  have "q * real w = 32 * real h" using assms(1,2) by (simp add: q_def)
  then have "dw * real h = dh * real w" unfolding r by simp
  moreover have "0 \<le> dx \<and> 0 \<le> dy \<and> dx + dw \<le> 32 \<and> dy + dh \<le> 32
      \<and> dx = 32 - (dx + dw) \<and> dy = 32 - (dy + dh) \<and> (dw = 32 \<or> dh = 32)"
    unfolding r using q by (auto simp: diff_divide_distrib)
  ultimately show ?thesis by blast
next
  case False
  define q where "q = 32 * (real w / real h)"
  have r: "dx = (32 - q) / 2" "dy = 0" "dw = q" "dh = 32"
    using assms False
    by (simp_all add: maskDestRect_def SPRITE_WIDTH_def SPRITE_HEIGHT_def Let_def q_def)
  have "real w / real h \<le> 1" using False by simp
  then have "32 * (real w / real h) \<le> 32 * 1" by (rule mult_left_mono) simp
  then have q: "0 \<le> q" "q \<le> 32" by (simp_all add: q_def)
  have "q * real h = 32 * real w" using assms(1,2) by (simp add: q_def)
  then have "dw * real h = dh * real w" unfolding r by simp
  moreover have "0 \<le> dx \<and> 0 \<le> dy \<and> dx + dw \<le> 32 \<and> dy + dh \<le> 32
      \<and> dx = 32 - (dx + dw) \<and> dy = 32 - (dy + dh) \<and> (dw = 32 \<or> dh = 32)"
    unfolding r using q by (auto simp: diff_divide_distrib)
  ultimately show ?thesis by blast
qed

text \<open>
  \<^bold>\<open>C5\<close>.  \<^verbatim>\<open>lastFrameTimestamp\<close> equals the last tick at which a video redraw occurred
  and is non-decreasing: \<^verbatim>\<open>update\<close> changes it only when it performs a video redraw.

  \<^verbatim>\<open>update\<close> assigns the timestamp before it looks at the size of the video: with a
  source that reports 0 by 0, the tick at 100 ms moves \<^verbatim>\<open>lastFrameTime\<close> of a fresh
  video-active instance from 0 to 100 and draws nothing.
\<close>

theorem C5_timestamp_moves_without_redraw:
  "lastFrameTime active_fresh = 0 \<and> lastFrameTime (update 100 0 0 active_fresh) = 100
   \<and> \<not> video_redraw 100 0 0 active_fresh"
  by (simp add: active_fresh_simp video_redraw_iff throttle_pass_def
      update_lastFrameTime frameInterval_def)

text \<open>
  \<^bold>\<open>C5\<close>, amended.  For every instance and every sequence of updates,
  \<^verbatim>\<open>lastFrameTimestamp\<close> is non-decreasing and equals the last tick at which \<^verbatim>\<open>update\<close>
  passed its throttle check on a live video-active instance (its initial value when
  there was none).  A video redraw happens exactly at such a tick with a source of
  non-zero size, so every redraw sets \<^verbatim>\<open>lastFrameTimestamp\<close> to its tick; a tick that
  passes the throttle while the source reports zero width or height also sets it.
\<close>

theorem C5_lastFrameTime:
  "lastFrameTime (update t vw vh r) = (if throttle_pass t r then t else lastFrameTime r)
   \<and> video_redraw t vw vh r = (throttle_pass t r \<and> vw \<noteq> 0 \<and> vh \<noteq> 0)
   \<and> lastFrameTime r \<le> lastFrameTime (update t vw vh r)
   \<and> lastFrameTime r \<le> lastFrameTime (updates ticks r)
   \<and> lastFrameTime (updates ticks r) = last (lastFrameTime r # pass_times ticks r)
   \<and> set (redraw_times ticks r) \<subseteq> set (pass_times ticks r)"
  using update_lastFrameTime [of t vw vh r] video_redraw_iff [of t vw vh r]
    update_lastFrameTime_mono [of r t vw vh] updates_lastFrameTime_mono [of r ticks]
    updates_lastFrameTime [of ticks r] redraw_subset_pass [of ticks r]
  by blast



text \<open>
  \<^bold>\<open>C7\<close>.  \<^verbatim>\<open>getActiveVideoCount()\<close> is 1 for a video-active local instance (0
  otherwise) plus the number of remote instances that are video-active, computed from
  the instances as they are at the call; \<^verbatim>\<open>canAddVideoStream()\<close> holds exactly when that
  count is below 8.
\<close>

theorem C7_active_video_count:
  "getActiveVideoCount w =
     (case localRenderer w of
        None \<Rightarrow> 0
      | Some l \<Rightarrow> if isVideoActive (deref w l) then 1 else 0)
     + length (filter (\<lambda>(k, x). isVideoActive (deref w x)) (renderers w))
   \<and> canAddVideoStream w = (getActiveVideoCount w < 8)"
  by (simp add: getActiveVideoCount_eq canAddVideoStream_def MAX_CONCURRENT_VIDEO_def)

text \<open>
  \<^bold>\<open>C8\<close>.  On a live instance, \<^verbatim>\<open>setStream\<close> with no stream, or with a stream without a
  video track, detaches the stream, leaves video-active mode and, in the same call, draws
  the cached mask with the mask compositor when there is one and the placeholder
  otherwise, and pushes the canvas to the texture; \<^verbatim>\<open>lastFrameTime\<close> plays no part.
\<close>

theorem C8_setStream_absent:
  assumes "\<not> destroyed r"
    and "(case stream of None \<Rightarrow> True | Some s \<Rightarrow> videoTracks s = 0)"
  shows "srcObject (setStream stream r) = None
     \<and> \<not> isVideoActive (setStream stream r)
     \<and> canvas (setStream stream r) = canvas r @
          (case currentMaskImage r of None \<Rightarrow> placeholder_ops | Some img \<Rightarrow> mask_ops img)
     \<and> texture (setStream stream r) = map_option (\<lambda>_. canvas (setStream stream r)) (texture r)
     \<and> lastFrameTime (setStream stream r) = lastFrameTime r"
  using assms
  by (cases stream; cases "currentMaskImage r")
     (simp_all add: setStream_def drawMaskToCanvas_def drawPlaceholder_def refreshTexture_def
      isVideoActive_def)

theorem C8_setStream_absent_witness:
  "\<not> destroyed masked_active \<and> isVideoActive masked_active
   \<and> srcObject (setStream None masked_active) = None
   \<and> \<not> isVideoActive (setStream None masked_active)
   \<and> canvas (setStream None masked_active) = canvas masked_active @ mask_ops mask_64x32
   \<and> texture (setStream None masked_active) = Some (canvas masked_active @ mask_ops mask_64x32)
   \<and> \<not> destroyed active_fresh
   \<and> canvas (setStream (Some (MediaStream 2 0)) active_fresh)
        = canvas active_fresh @ placeholder_ops"
  using C8_setStream_absent [of masked_active None]
    C8_setStream_absent [of active_fresh "Some (MediaStream 2 0)"]
  by (simp add: masked_active_simp active_fresh_simp isVideoActive_def)






end
